theory Spec2Isabelle
  imports
    Main
    "HOL-Library.Word"
    "HOL-Library.Char_ord"
    "HOL-Library.List_Lexorder"
    "HOL-Library.Multiset"
begin

section \<open>Values held by an entity\<close>

text \<open>
  \<^verbatim>\<open>type Entity map[string]interface{}\<close>: an entity maps label names to values of
  any dynamic type. The accessors of \<^verbatim>\<open>etre.go\<close> look at a value only through type
  switches and type assertions on \<^verbatim>\<open>string\<close>, \<^verbatim>\<open>int64\<close>, \<^verbatim>\<open>int32\<close> and \<^verbatim>\<open>int\<close>, so a
  value is modelled by its dynamic type and payload: the nil interface, the types the
  code names, two further common ones, and \<open>VOther t\<close> for a value of any other dynamic
  type, \<open>t\<close> being the name of that type as \<^verbatim>\<open>%T\<close> prints it.

  Go's \<^verbatim>\<open>int\<close> is 32 or 64 bits wide, depending on the target. The type parameter \<open>'i\<close>
  is the type of a native \<^verbatim>\<open>int\<close>; the operations below take it to be \<open>'n word\<close>, with
  \<open>'n\<close> the native width.
\<close>

datatype 'i val =
    VNil
  | VString string
  | VBool bool
  | VInt 'i
  | VInt32 "32 word"
  | VInt64 "64 word"
  | VFloat64 "64 word"
  | VOther string

datatype go_type =
    T_nil | T_string | T_bool | T_int | T_int32 | T_int64 | T_float64 | T_other string

text \<open>The dynamic type a type switch \<^verbatim>\<open>switch v.(type)\<close> branches on.\<close>

fun dyn_type :: "'i val \<Rightarrow> go_type" where
  "dyn_type VNil = T_nil"
| "dyn_type (VString s) = T_string"
| "dyn_type (VBool b) = T_bool"
| "dyn_type (VInt n) = T_int"
| "dyn_type (VInt32 n) = T_int32"
| "dyn_type (VInt64 n) = T_int64"
| "dyn_type (VFloat64 x) = T_float64"
| "dyn_type (VOther t) = T_other t"

text \<open>What \<^verbatim>\<open>%T\<close> prints for a value of that type.\<close>

fun type_name :: "go_type \<Rightarrow> string" where
  "type_name T_nil = ''<nil>''"
| "type_name T_string = ''string''"
| "type_name T_bool = ''bool''"
| "type_name T_int = ''int''"
| "type_name T_int32 = ''int32''"
| "type_name T_int64 = ''int64''"
| "type_name T_float64 = ''float64''"
| "type_name (T_other t) = t"

text \<open>
  A panic ends the call. \<open>InterfaceConversion have want\<close> is the run-time panic of a failed
  type assertion \<^verbatim>\<open>v.(want)\<close> on a value of dynamic type \<open>have\<close>; \<open>InvalidRev id t\<close> is the
  explicit \<^verbatim>\<open>panic\<close> of \<^verbatim>\<open>Rev\<close>, with the two arguments of its message; \<open>IndexOutOfRange i n\<close>
  is the run-time panic of an index \<open>i\<close> into a slice of length \<open>n\<close>.
\<close>

datatype panic =
    InterfaceConversion go_type go_type
  | InvalidRev string string
  | IndexOutOfRange nat nat

type_synonym 'i Entity = "string \<rightharpoonup> 'i val"

text \<open>The index expression \<^verbatim>\<open>e[label]\<close>: the nil interface when the key is absent.\<close>

definition index :: "'i Entity \<Rightarrow> string \<Rightarrow> 'i val" where
  "index e label = (case e label of None \<Rightarrow> VNil | Some v \<Rightarrow> v)"

text \<open>The second result of \<^verbatim>\<open>_, ok := e[label]\<close>.\<close>

definition index_ok :: "'i Entity \<Rightarrow> string \<Rightarrow> bool" where
  "index_ok e label = (case e label of None \<Rightarrow> False | Some v \<Rightarrow> True)"

text \<open>The single-result type assertions \<^verbatim>\<open>v.(string)\<close>, \<^verbatim>\<open>v.(int64)\<close>, \<^verbatim>\<open>v.(int32)\<close>, \<^verbatim>\<open>v.(int)\<close>.\<close>

definition assert_string :: "'i val \<Rightarrow> panic + string" where
  "assert_string v =
     (case v of VString s \<Rightarrow> Inr s | _ \<Rightarrow> Inl (InterfaceConversion (dyn_type v) T_string))"

definition assert_int64 :: "'i val \<Rightarrow> panic + 64 word" where
  "assert_int64 v =
     (case v of VInt64 n \<Rightarrow> Inr n | _ \<Rightarrow> Inl (InterfaceConversion (dyn_type v) T_int64))"

definition assert_int32 :: "'i val \<Rightarrow> panic + 32 word" where
  "assert_int32 v =
     (case v of VInt32 n \<Rightarrow> Inr n | _ \<Rightarrow> Inl (InterfaceConversion (dyn_type v) T_int32))"

definition assert_int :: "'i val \<Rightarrow> panic + 'i" where
  "assert_int v =
     (case v of VInt n \<Rightarrow> Inr n | _ \<Rightarrow> Inl (InterfaceConversion (dyn_type v) T_int))"

text \<open>Sequencing: a panic in the first computation is the panic of the whole.\<close>

definition and_then :: "panic + 'a \<Rightarrow> ('a \<Rightarrow> panic + 'b) \<Rightarrow> panic + 'b" where
  "and_then m f = (case m of Inl p \<Rightarrow> Inl p | Inr x \<Rightarrow> f x)"

section \<open>Entity accessors\<close>

definition META_LABEL_ID :: string where
  "META_LABEL_ID = ''_id''"

definition META_LABEL_TYPE :: string where
  "META_LABEL_TYPE = ''_type''"

definition META_LABEL_REV :: string where
  "META_LABEL_REV = ''_rev''"

definition Entity_Id :: "'i Entity \<Rightarrow> panic + string" where
  "Entity_Id e = assert_string (index e META_LABEL_ID)"

definition Entity_Type :: "'i Entity \<Rightarrow> panic + string" where
  "Entity_Type e = assert_string (index e META_LABEL_TYPE)"

text \<open>
  \<^verbatim>\<open>Rev\<close>: the conversions \<^verbatim>\<open>int64(v.(int32))\<close> and \<^verbatim>\<open>int64(v.(int))\<close> are conversions between
  signed integer types (\<open>scast\<close>). When no case of the switch matches, the arguments of
  the message are evaluated, \<^verbatim>\<open>e.Id()\<close> among them, and then \<^verbatim>\<open>panic\<close> is called.
\<close>

definition Entity_Rev :: "('n::len) word Entity \<Rightarrow> panic + 64 word" where
  "Entity_Rev e =
     (let v = index e META_LABEL_REV in
      case dyn_type v of
        T_int64 \<Rightarrow> assert_int64 v
      | T_int32 \<Rightarrow> and_then (assert_int32 v) (\<lambda>n. Inr (scast n))
      | T_int \<Rightarrow> and_then (assert_int v) (\<lambda>n. Inr (scast n))
      | _ \<Rightarrow> and_then (Entity_Id e) (\<lambda>id. Inl (InvalidRev id (type_name (dyn_type v)))))"

definition Entity_Has :: "'i Entity \<Rightarrow> string \<Rightarrow> bool" where
  "Entity_Has e label = index_ok e label"

record 'i Set_struct =
  Set_Id :: string
  Set_Op :: string
  Set_Size :: 'i

text \<open>
  \<^verbatim>\<open>Set\<close>, one definition for each of its three \<^verbatim>\<open>if\<close> blocks. The switch on \<^verbatim>\<open>_setSize\<close>
  has no default case: \<^verbatim>\<open>size\<close> keeps its zero value when no case matches. The
  variable \<^verbatim>\<open>set\<close> of the source is \<open>st\<close>.
\<close>

definition Set_block_Id :: "'i Entity \<Rightarrow> 'i Set_struct \<Rightarrow> panic + 'i Set_struct" where
  "Set_block_Id e st =
     (if index_ok e ''_setId''
      then and_then (assert_string (index e ''_setId'')) (\<lambda>s. Inr (st\<lparr>Set_Id := s\<rparr>))
      else Inr st)"

definition Set_block_Op :: "'i Entity \<Rightarrow> 'i Set_struct \<Rightarrow> panic + 'i Set_struct" where
  "Set_block_Op e st =
     (if index_ok e ''_setOp''
      then and_then (assert_string (index e ''_setOp'')) (\<lambda>s. Inr (st\<lparr>Set_Op := s\<rparr>))
      else Inr st)"

definition Set_block_Size ::
  "('n::len) word Entity \<Rightarrow> 'n word Set_struct \<Rightarrow> panic + 'n word Set_struct" where
  "Set_block_Size e st =
     (if index_ok e ''_setSize''
      then and_then
             (case dyn_type (index e ''_setSize'') of
                T_int64 \<Rightarrow> and_then (assert_int64 (index e ''_setSize'')) (\<lambda>n. Inr (scast n))
              | T_int32 \<Rightarrow> and_then (assert_int32 (index e ''_setSize'')) (\<lambda>n. Inr (scast n))
              | T_int \<Rightarrow> assert_int (index e ''_setSize'')
              | _ \<Rightarrow> Inr 0)
             (\<lambda>size. Inr (st\<lparr>Set_Size := size\<rparr>))
      else Inr st)"

definition Entity_Set :: "('n::len) word Entity \<Rightarrow> panic + 'n word Set_struct" where
  "Entity_Set e =
     and_then (Set_block_Id e \<lparr>Set_Id = '''', Set_Op = '''', Set_Size = 0\<rparr>) (\<lambda>st.
     and_then (Set_block_Op e st) (\<lambda>st.
     Set_block_Size e st))"

text \<open>
  \<^verbatim>\<open>metaLabels\<close> is a \<^verbatim>\<open>map[string]bool\<close>; indexing it with an absent key gives \<^verbatim>\<open>false\<close>.
\<close>

definition metaLabels :: "string \<rightharpoonup> bool" where
  "metaLabels = map_of
     [(''_id'', True), (''_rev'', True), (''_setId'', True), (''_setOp'', True),
      (''_setSize'', True), (''_ts'', True), (''_type'', True)]"

definition IsMetalabel :: "string \<Rightarrow> bool" where
  "IsMetalabel label = (case metaLabels label of None \<Rightarrow> False | Some b \<Rightarrow> b)"

text \<open>
  \<^verbatim>\<open>Labels\<close>. The statement \<^verbatim>\<open>for label := range e\<close> visits every key of the map once, in an
  order the language leaves unspecified and that may differ from one loop to the next:
  \<open>range_order e ks\<close> says that \<open>ks\<close> is one such order, and \<^verbatim>\<open>Labels\<close> takes the order of
  its loop as an argument. \<^verbatim>\<open>len(e)\<close> is the number of keys. The loop stores the keys by
  index into a slice of that length; an index out of range would panic.

  \<^verbatim>\<open>sort.Strings\<close> is the standard library's: it rearranges the slice into increasing
  order under Go's \<^verbatim>\<open><\<close> on strings, which compares byte by byte. That is the order of
  \<open>string\<close> here (the lexicographic order of lists over the order of \<open>char\<close> by byte
  value), and a list has one sorted rearrangement, the one \<open>sort\<close> computes.
\<close>

definition range_order :: "'i Entity \<Rightarrow> string list \<Rightarrow> bool" where
  "range_order e ks \<longleftrightarrow> distinct ks \<and> set ks = dom e"

definition len :: "'i Entity \<Rightarrow> nat" where
  "len e = card (dom e)"

definition sort_Strings :: "string list \<Rightarrow> string list" where
  "sort_Strings a = sort a"

fun Labels_loop :: "string list \<Rightarrow> nat \<Rightarrow> string list \<Rightarrow> panic + string list" where
  "Labels_loop labels i [] = Inr labels"
| "Labels_loop labels i (label # rest) =
     (if i < length labels
      then Labels_loop (labels[i := label]) (Suc i) rest
      else Inl (IndexOutOfRange i (length labels)))"

definition Entity_Labels :: "'i Entity \<Rightarrow> string list \<Rightarrow> panic + string list" where
  "Entity_Labels e ks =
     and_then (Labels_loop (replicate (len e) '''') 0 ks) (\<lambda>labels.
     Inr (sort_Strings labels))"

text \<open>
  \<^verbatim>\<open>String\<close>: the assertion \<^verbatim>\<open>v.(string)\<close> is made inside the \<^verbatim>\<open>case string\<close> of the switch.
\<close>

definition Entity_String :: "'i Entity \<Rightarrow> string \<Rightarrow> panic + string" where
  "Entity_String e label =
     (let v = index e label in
      case dyn_type v of
        T_string \<Rightarrow> assert_string v
      | _ \<Rightarrow> Inr '''')"

section \<open>Write results and errors\<close>

text \<open>
  A slice is nil or has elements; \<^verbatim>\<open>len\<close> of the nil slice is 0. A pointer that is only
  compared with nil is an \<open>option\<close>.
\<close>

datatype 'a slice = NilSlice | Slice "'a list"

fun elems :: "'a slice \<Rightarrow> 'a list" where
  "elems NilSlice = []"
| "elems (Slice xs) = xs"

definition len_slice :: "'a slice \<Rightarrow> nat" where
  "len_slice s = length (elems s)"

record 'i Error =
  Error_Message :: string
  Error_Type :: string
  Error_EntityId :: string
  Error_HTTPStatus :: 'i

record 'i Write =
  Write_EntityId :: string
  Write_URI :: string
  Write_Diff :: "'i Entity"

record 'i WriteResult =
  WriteResult_Writes :: "'i Write slice"
  WriteResult_Error :: "'i Error option"

definition WriteResult_IsZero :: "'i WriteResult \<Rightarrow> bool" where
  "WriteResult_IsZero wr \<longleftrightarrow> WriteResult_Error wr = None \<and> len_slice (WriteResult_Writes wr) = 0"

text \<open>
  \<^verbatim>\<open>func (e Error) New(msgFmt string, msgArgs ...interface{}) Error\<close> has a value receiver:
  a call \<^verbatim>\<open>x.New(f, a)\<close> copies the caller's \<^verbatim>\<open>x\<close> into the parameter \<^verbatim>\<open>e\<close>, and the body
  assigns to that parameter. An \<^verbatim>\<open>Error\<close> has string and integer fields only, so the copy
  shares nothing with \<^verbatim>\<open>x\<close>. The frame of a call holds both variables; \<open>Error_New\<close>
  returns the caller's variable as the call leaves it, and the result of the call.
  \<^verbatim>\<open>fmt.Sprintf\<close> is the standard library's and is a parameter, \<open>Sprintf\<close>.
\<close>

record 'i New_frame =
  caller_x :: "'i Error"
  param_e :: "'i Error"

definition New_body ::
  "(string \<Rightarrow> 'a list \<Rightarrow> string) \<Rightarrow> 'i New_frame \<Rightarrow> string \<Rightarrow> 'a list \<Rightarrow> 'i New_frame" where
  "New_body Sprintf fr msgFmt msgArgs =
     (if msgFmt \<noteq> ''''
      then fr\<lparr>param_e := (param_e fr)\<lparr>Error_Message := Sprintf msgFmt msgArgs\<rparr>\<rparr>
      else fr)"

definition Error_New ::
  "(string \<Rightarrow> 'a list \<Rightarrow> string) \<Rightarrow> 'i Error \<Rightarrow> string \<Rightarrow> 'a list \<Rightarrow> 'i Error \<times> 'i Error" where
  "Error_New Sprintf x msgFmt msgArgs =
     (let fr = New_body Sprintf \<lparr>caller_x = x, param_e = x\<rparr> msgFmt msgArgs
      in (caller_x fr, param_e fr))"

section \<open>The revision of an entity\<close>

lemma sint_scast_up:
  fixes w :: "'a::len word"
  assumes "LENGTH('a) \<le> LENGTH('b::len)"
  shows "sint (scast w :: 'b word) = sint w"
  using assms by (simp add: sint_up_scast is_up)

text \<open>
  C1. When \<^verbatim>\<open>_rev\<close> holds an \<^verbatim>\<open>int64\<close>, an \<^verbatim>\<open>int32\<close> or a native \<^verbatim>\<open>int\<close> (of a width of at most
  64 bits, as Go's is), \<^verbatim>\<open>Rev\<close> returns, without panicking, the \<^verbatim>\<open>int64\<close> whose signed value
  is the signed value stored; so entities that store the same number in any two of the
  three encodings have the same revision.
\<close>

theorem Entity_Rev_int_encodings:
  fixes e1 e2 e3 :: "('n::len) word Entity"
  assumes "LENGTH('n) \<le> 64"
    and "e1 META_LABEL_REV = Some (VInt64 a)"
    and "e2 META_LABEL_REV = Some (VInt32 b)"
    and "e3 META_LABEL_REV = Some (VInt c)"
  shows "\<exists>r1 r2 r3.
           Entity_Rev e1 = Inr r1 \<and> sint r1 = sint a
         \<and> Entity_Rev e2 = Inr r2 \<and> sint r2 = sint b
         \<and> Entity_Rev e3 = Inr r3 \<and> sint r3 = sint c
         \<and> (sint a = sint b \<longrightarrow> r1 = r2)
         \<and> (sint a = sint c \<longrightarrow> r1 = r3)
         \<and> (sint b = sint c \<longrightarrow> r2 = r3)"
proof -
  have r1: "Entity_Rev e1 = Inr a"
    using assms(2) by (simp add: Entity_Rev_def index_def assert_int64_def)
  have r2: "Entity_Rev e2 = Inr (scast b)"
    using assms(3) by (simp add: Entity_Rev_def index_def assert_int32_def and_then_def)
  have r3: "Entity_Rev e3 = Inr (scast c)"
    using assms(4) by (simp add: Entity_Rev_def index_def assert_int_def and_then_def)
  have s2: "sint (scast b :: 64 word) = sint b"
    by (rule sint_scast_up) simp
  have s3: "sint (scast c :: 64 word) = sint c"
    by (rule sint_scast_up) (simp add: assms(1))
  have e12: "a = scast b" if "sint a = sint b"
    by (rule signed_word_eqI [where ?'a = int]) (simp add: s2 that)
  have e13: "a = scast c" if "sint a = sint c"
    by (rule signed_word_eqI [where ?'a = int]) (simp add: s3 that)
  have e23: "(scast b :: 64 word) = scast c" if "sint b = sint c"
    by (rule signed_word_eqI [where ?'a = int]) (simp add: s2 s3 that)
  show ?thesis
    using r1 r2 r3 s2 s3 e12 e13 e23 by simp
qed

theorem Entity_Rev_int_encodings_witness:
  "LENGTH(32) \<le> (64::nat)
   \<and> ([META_LABEL_REV \<mapsto> VInt64 (-5)] :: 32 word Entity) META_LABEL_REV = Some (VInt64 (-5))
   \<and> ([META_LABEL_REV \<mapsto> VInt32 (-5)] :: 32 word Entity) META_LABEL_REV = Some (VInt32 (-5))
   \<and> ([META_LABEL_REV \<mapsto> VInt (-5)] :: 32 word Entity) META_LABEL_REV = Some (VInt (-5))
   \<and> (\<exists>r1 r2 r3.
        Entity_Rev ([META_LABEL_REV \<mapsto> VInt64 (-5)] :: 32 word Entity) = Inr r1 \<and> sint r1 = -5
      \<and> Entity_Rev ([META_LABEL_REV \<mapsto> VInt32 (-5)] :: 32 word Entity) = Inr r2 \<and> sint r2 = -5
      \<and> Entity_Rev ([META_LABEL_REV \<mapsto> VInt (-5)] :: 32 word Entity) = Inr r3 \<and> sint r3 = -5
      \<and> r1 = r2 \<and> r1 = r3 \<and> r2 = r3)"
  using Entity_Rev_int_encodings
    [where 'n = 32, of "[META_LABEL_REV \<mapsto> VInt64 (-5)]" "-5"
       "[META_LABEL_REV \<mapsto> VInt32 (-5)]" "-5" "[META_LABEL_REV \<mapsto> VInt (-5)]" "-5"]
  by simp

lemma Entity_Rev_no_case:
  fixes e :: "('n::len) word Entity"
  assumes ty: "dyn_type (index e META_LABEL_REV) \<notin> {T_int64, T_int32, T_int}"
  shows "\<exists>p. Entity_Rev e = Inl p"
proof (cases "Entity_Id e")
  case (Inl p)
  with ty show ?thesis
    by (cases "dyn_type (index e META_LABEL_REV)") (simp_all add: Entity_Rev_def and_then_def)
next
  case (Inr id)
  with ty show ?thesis
    by (cases "dyn_type (index e META_LABEL_REV)") (simp_all add: Entity_Rev_def and_then_def)
qed

text \<open>
  C2. When \<^verbatim>\<open>_rev\<close> is absent, or holds a value whose dynamic type is none of \<^verbatim>\<open>int64\<close>,
  \<^verbatim>\<open>int32\<close> and \<^verbatim>\<open>int\<close>, \<^verbatim>\<open>Rev\<close> panics: it returns no revision, 0 or other.
\<close>

theorem Entity_Rev_panics:
  fixes e :: "('n::len) word Entity"
  assumes "e META_LABEL_REV = None
           \<or> (\<exists>v. e META_LABEL_REV = Some v \<and> dyn_type v \<notin> {T_int64, T_int32, T_int})"
  shows "(\<exists>p. Entity_Rev e = Inl p) \<and> (\<forall>r. Entity_Rev e \<noteq> Inr r)"
proof -
  have "dyn_type (index e META_LABEL_REV) \<notin> {T_int64, T_int32, T_int}"
    using assms by (auto simp: index_def)
  then have "\<exists>p. Entity_Rev e = Inl p"
    by (rule Entity_Rev_no_case)
  then show ?thesis by auto
qed

theorem Entity_Rev_panics_witness:
  "(Map.empty :: 64 word Entity) META_LABEL_REV = None
   \<and> Entity_Rev (Map.empty :: 64 word Entity) = Inl (InterfaceConversion T_nil T_string)
   \<and> ([META_LABEL_ID \<mapsto> VString ''e1'', META_LABEL_REV \<mapsto> VString ''7''] :: 64 word Entity)
        META_LABEL_REV = Some (VString ''7'')
   \<and> dyn_type (VString ''7'' :: 64 word val) \<notin> {T_int64, T_int32, T_int}
   \<and> Entity_Rev ([META_LABEL_ID \<mapsto> VString ''e1'', META_LABEL_REV \<mapsto> VString ''7''] :: 64 word Entity)
       = Inl (InvalidRev ''e1'' ''string'')"
  using Entity_Rev_panics [of "Map.empty :: 64 word Entity"]
    Entity_Rev_panics
      [of "[META_LABEL_ID \<mapsto> VString ''e1'', META_LABEL_REV \<mapsto> VString ''7''] :: 64 word Entity"]
  by (simp add: Entity_Rev_def index_def Entity_Id_def assert_string_def and_then_def
      META_LABEL_ID_def META_LABEL_REV_def)

section \<open>The set of an entity\<close>

lemma Set_block_Id_ok:
  assumes "e ''_setId'' = None \<or> (\<exists>s. e ''_setId'' = Some (VString s))"
  shows "Set_block_Id e st =
           Inr (case e ''_setId'' of None \<Rightarrow> st
                | Some v \<Rightarrow> st\<lparr>Set_Id := (case v of VString s \<Rightarrow> s | _ \<Rightarrow> '''')\<rparr>)"
  using assms
  by (auto simp: Set_block_Id_def index_ok_def index_def assert_string_def and_then_def)

lemma Set_block_Op_ok:
  assumes "e ''_setOp'' = None \<or> (\<exists>s. e ''_setOp'' = Some (VString s))"
  shows "Set_block_Op e st =
           Inr (case e ''_setOp'' of None \<Rightarrow> st
                | Some v \<Rightarrow> st\<lparr>Set_Op := (case v of VString s \<Rightarrow> s | _ \<Rightarrow> '''')\<rparr>)"
  using assms
  by (auto simp: Set_block_Op_def index_ok_def index_def assert_string_def and_then_def)

text \<open>A present \<^verbatim>\<open>_setId\<close> that is not a string ends \<^verbatim>\<open>Set\<close> in its first block.\<close>

lemma Set_block_Id_fails:
  assumes "e ''_setId'' = Some v" and "dyn_type v \<noteq> T_string"
  shows "Set_block_Id e st = Inl (InterfaceConversion (dyn_type v) T_string)"
  using assms
  by (cases v) (simp_all add: Set_block_Id_def index_ok_def index_def assert_string_def and_then_def)

text \<open>The block of \<^verbatim>\<open>_setSize\<close> never panics.\<close>

lemma Set_block_Size_total:
  "\<exists>n. Set_block_Size e st =
         Inr (case e ''_setSize'' of None \<Rightarrow> st | Some v \<Rightarrow> st\<lparr>Set_Size := n\<rparr>)"
  by (cases "e ''_setSize''"; cases "index e ''_setSize''")
     (auto simp: Set_block_Size_def index_ok_def index_def assert_int64_def assert_int32_def
        assert_int_def and_then_def)

lemma Set_block_Size_other:
  assumes "e ''_setSize'' = Some v" and "dyn_type v \<notin> {T_int64, T_int32, T_int}"
  shows "Set_block_Size e st = Inr (st\<lparr>Set_Size := 0\<rparr>)"
  using assms
  by (cases "dyn_type v")
     (auto simp: Set_block_Size_def index_ok_def index_def and_then_def)

text \<open>
  C3, as the code has it. \<^verbatim>\<open>Set\<close> asserts \<^verbatim>\<open>.(string)\<close> on a present \<^verbatim>\<open>_setId\<close> and \<^verbatim>\<open>_setOp\<close>
  without a check, so it is for entities whose \<^verbatim>\<open>_setId\<close> and \<^verbatim>\<open>_setOp\<close> are each absent or a
  string that \<^verbatim>\<open>Set\<close> does not fail. For those, each field of the result whose label is absent
  is the zero value; with none of the three labels the result is \<^verbatim>\<open>{"", "", 0}\<close>, and with
  only \<^verbatim>\<open>_setId\<close> present, \<^verbatim>\<open>Op\<close> is \<^verbatim>\<open>""\<close> and \<^verbatim>\<open>Size\<close> is 0.
\<close>

theorem Entity_Set_absent_fields:
  fixes e :: "('n::len) word Entity"
  assumes "e ''_setId'' = None \<or> (\<exists>s. e ''_setId'' = Some (VString s))"
    and "e ''_setOp'' = None \<or> (\<exists>s. e ''_setOp'' = Some (VString s))"
  shows "\<exists>st. Entity_Set e = Inr st
          \<and> (e ''_setId'' = None \<longrightarrow> Set_Id st = '''')
          \<and> (e ''_setOp'' = None \<longrightarrow> Set_Op st = '''')
          \<and> (e ''_setSize'' = None \<longrightarrow> Set_Size st = 0)
          \<and> (e ''_setId'' = None \<and> e ''_setOp'' = None \<and> e ''_setSize'' = None
               \<longrightarrow> st = \<lparr>Set_Id = '''', Set_Op = '''', Set_Size = 0\<rparr>)"
proof -
  obtain n where n: "Set_block_Size e st =
      Inr (case e ''_setSize'' of None \<Rightarrow> st | Some v \<Rightarrow> st\<lparr>Set_Size := n st\<rparr>)" for st
    using Set_block_Size_total [of e] by metis
  note blocks = Set_block_Id_ok [of e, OF assms(1)] Set_block_Op_ok [of e, OF assms(2)]
  show ?thesis
    by (auto simp: Entity_Set_def blocks n and_then_def split: option.splits)
qed

theorem Entity_Set_absent_fields_witness:
  "(([''_setId'' \<mapsto> VString ''s1''] :: 64 word Entity) ''_setId'' = None
      \<or> (\<exists>s. ([''_setId'' \<mapsto> VString ''s1''] :: 64 word Entity) ''_setId'' = Some (VString s)))
   \<and> ([''_setId'' \<mapsto> VString ''s1''] :: 64 word Entity) ''_setOp'' = None
   \<and> ([''_setId'' \<mapsto> VString ''s1''] :: 64 word Entity) ''_setSize'' = None
   \<and> Entity_Set ([''_setId'' \<mapsto> VString ''s1''] :: 64 word Entity)
        = Inr \<lparr>Set_Id = ''s1'', Set_Op = '''', Set_Size = 0\<rparr>
   \<and> Entity_Set (Map.empty :: 64 word Entity) = Inr \<lparr>Set_Id = '''', Set_Op = '''', Set_Size = 0\<rparr>"
  using Entity_Set_absent_fields [of "[''_setId'' \<mapsto> VString ''s1''] :: 64 word Entity"]
    Entity_Set_absent_fields [of "Map.empty :: 64 word Entity"]
  by (simp add: Entity_Set_def Set_block_Id_def Set_block_Op_def Set_block_Size_def index_ok_def
      index_def assert_string_def and_then_def)

text \<open>
  C3, as stated, fails: on the entity \<^verbatim>\<open>{"_setId": 1}\<close>, with only \<^verbatim>\<open>_setId\<close> present, \<^verbatim>\<open>Set\<close>
  panics in the assertion \<^verbatim>\<open>e["_setId"].(string)\<close>.
\<close>

theorem Entity_Set_non_string_id:
  "Entity_Set ([''_setId'' \<mapsto> VInt 1] :: 64 word Entity)
     = Inl (InterfaceConversion T_int T_string)"
  by (simp add: Entity_Set_def Set_block_Id_def index_ok_def index_def assert_string_def
      and_then_def)

text \<open>
  C10, as the code has it. For an entity whose \<^verbatim>\<open>_setSize\<close> is present with a dynamic type that
  is none of \<^verbatim>\<open>int64\<close>, \<^verbatim>\<open>int32\<close> and \<^verbatim>\<open>int\<close>, and whose \<^verbatim>\<open>_setId\<close> and \<^verbatim>\<open>_setOp\<close> are each absent
  or a string, \<^verbatim>\<open>Set\<close> returns a set of \<^verbatim>\<open>Size\<close> 0 and does not fail; \<^verbatim>\<open>Rev\<close> panics on every
  entity that holds the same value under \<^verbatim>\<open>_rev\<close>.
\<close>

theorem Entity_Set_size_of_other_type:
  fixes e e' :: "('n::len) word Entity"
  assumes "e ''_setSize'' = Some v" and "dyn_type v \<notin> {T_int64, T_int32, T_int}"
    and "e ''_setId'' = None \<or> (\<exists>s. e ''_setId'' = Some (VString s))"
    and "e ''_setOp'' = None \<or> (\<exists>s. e ''_setOp'' = Some (VString s))"
  shows "(\<exists>st. Entity_Set e = Inr st \<and> Set_Size st = 0)
       \<and> (e' META_LABEL_REV = Some v \<longrightarrow> (\<exists>p. Entity_Rev e' = Inl p))"
proof -
  note blocks = Set_block_Id_ok [of e, OF assms(3)] Set_block_Op_ok [of e, OF assms(4)]
    Set_block_Size_other [of e, OF assms(1,2)]
  have "\<exists>st. Entity_Set e = Inr st \<and> Set_Size st = 0"
    by (simp add: Entity_Set_def blocks and_then_def)
  moreover have "\<exists>p. Entity_Rev e' = Inl p" if "e' META_LABEL_REV = Some v"
    by (rule Entity_Rev_no_case) (use that assms(2) in \<open>simp add: index_def\<close>)
  ultimately show ?thesis by blast
qed

theorem Entity_Set_size_of_other_type_witness:
  "([''_setSize'' \<mapsto> VFloat64 0x4008000000000000] :: 64 word Entity) ''_setSize''
      = Some (VFloat64 0x4008000000000000)
   \<and> dyn_type (VFloat64 0x4008000000000000 :: 64 word val) \<notin> {T_int64, T_int32, T_int}
   \<and> ([''_setSize'' \<mapsto> VFloat64 0x4008000000000000] :: 64 word Entity) ''_setId'' = None
   \<and> ([''_setSize'' \<mapsto> VFloat64 0x4008000000000000] :: 64 word Entity) ''_setOp'' = None
   \<and> Entity_Set ([''_setSize'' \<mapsto> VFloat64 0x4008000000000000] :: 64 word Entity)
        = Inr \<lparr>Set_Id = '''', Set_Op = '''', Set_Size = 0\<rparr>
   \<and> Entity_Rev ([META_LABEL_ID \<mapsto> VString ''e1'', META_LABEL_REV \<mapsto> VFloat64 0x4008000000000000]
         :: 64 word Entity) = Inl (InvalidRev ''e1'' ''float64'')"
  using Entity_Set_size_of_other_type
    [of "[''_setSize'' \<mapsto> VFloat64 0x4008000000000000] :: 64 word Entity"
        "VFloat64 0x4008000000000000"
        "[META_LABEL_ID \<mapsto> VString ''e1'', META_LABEL_REV \<mapsto> VFloat64 0x4008000000000000]"]
  by (simp add: Entity_Set_def Set_block_Id_def Set_block_Op_def Set_block_Size_def index_ok_def
      index_def assert_string_def and_then_def Entity_Rev_def Entity_Id_def
      META_LABEL_ID_def META_LABEL_REV_def)

text \<open>
  C10, as stated, fails: on the entity \<^verbatim>\<open>{"_setId": true, "_setSize": "3"}\<close>, whose \<^verbatim>\<open>_setSize\<close>
  is a string, \<^verbatim>\<open>Set\<close> returns no \<^verbatim>\<open>Size\<close>: it panics in the assertion on \<^verbatim>\<open>_setId\<close>.
\<close>

theorem Entity_Set_size_behind_non_string_id:
  "Entity_Set ([''_setId'' \<mapsto> VBool True, ''_setSize'' \<mapsto> VString ''3''] :: 64 word Entity)
     = Inl (InterfaceConversion T_bool T_string)"
  by (simp add: Entity_Set_def Set_block_Id_def index_ok_def index_def assert_string_def
      and_then_def)

section \<open>Labels\<close>

text \<open>
  C9. \<^verbatim>\<open>Has\<close> is true exactly for the keys of the map: whatever value a key is given, nil,
  empty or zero included, the entity has the label, and it does not once the key is
  deleted.
\<close>

theorem Entity_Has_iff:
  "(Entity_Has e label \<longleftrightarrow> label \<in> dom e)
   \<and> Entity_Has (e(label \<mapsto> v)) label
   \<and> \<not> Entity_Has (e(label := None)) label"
  by (auto simp: Entity_Has_def index_ok_def split: option.splits)

text \<open>
  C7. \<^verbatim>\<open>IsMetalabel\<close> is true exactly for the seven reserved names; it is false for the case
  variant \<^verbatim>\<open>_ID\<close> and for the superstring \<^verbatim>\<open>_idx\<close>.
\<close>

theorem IsMetalabel_iff:
  "(IsMetalabel label \<longleftrightarrow>
      label \<in> {''_id'', ''_rev'', ''_setId'', ''_setOp'', ''_setSize'', ''_ts'', ''_type''})
   \<and> \<not> IsMetalabel ''_ID'' \<and> \<not> IsMetalabel ''_idx''"
  by (simp add: IsMetalabel_def metaLabels_def)

text \<open>
  C8. \<^verbatim>\<open>String\<close> never panics: it returns the stored value when the label holds a string, and
  the empty string in every other case, the label absent or its value of another type or
  nil.
\<close>

theorem Entity_String_total:
  "(\<exists>s. Entity_String e label = Inr s)
   \<and> (\<forall>s. e label = Some (VString s) \<longrightarrow> Entity_String e label = Inr s)
   \<and> ((\<forall>s. e label \<noteq> Some (VString s)) \<longrightarrow> Entity_String e label = Inr '''')"
  by (cases "e label"; cases "index e label")
     (auto simp: Entity_String_def index_def assert_string_def)

theorem Entity_String_total_witness:
  "([''name'' \<mapsto> VString ''db1'', ''port'' \<mapsto> VInt (3306 :: 64 word), ''zone'' \<mapsto> VNil]) ''name''
      = Some (VString ''db1'')
   \<and> Entity_String [''name'' \<mapsto> VString ''db1'', ''port'' \<mapsto> VInt (3306 :: 64 word), ''zone'' \<mapsto> VNil]
        ''name'' = Inr ''db1''
   \<and> (\<forall>s. ([''name'' \<mapsto> VString ''db1'', ''port'' \<mapsto> VInt (3306 :: 64 word), ''zone'' \<mapsto> VNil]) ''port''
         \<noteq> Some (VString s))
   \<and> Entity_String [''name'' \<mapsto> VString ''db1'', ''port'' \<mapsto> VInt (3306 :: 64 word), ''zone'' \<mapsto> VNil]
        ''port'' = Inr ''''
   \<and> Entity_String [''name'' \<mapsto> VString ''db1'', ''port'' \<mapsto> VInt (3306 :: 64 word), ''zone'' \<mapsto> VNil]
        ''zone'' = Inr ''''
   \<and> Entity_String [''name'' \<mapsto> VString ''db1'', ''port'' \<mapsto> VInt (3306 :: 64 word), ''zone'' \<mapsto> VNil]
        ''host'' = Inr ''''"
  using
    Entity_String_total
      [of "[''name'' \<mapsto> VString ''db1'', ''port'' \<mapsto> VInt (3306 :: 64 word), ''zone'' \<mapsto> VNil]"
          "''name''"]
    Entity_String_total
      [of "[''name'' \<mapsto> VString ''db1'', ''port'' \<mapsto> VInt (3306 :: 64 word), ''zone'' \<mapsto> VNil]"
          "''port''"]
    Entity_String_total
      [of "[''name'' \<mapsto> VString ''db1'', ''port'' \<mapsto> VInt (3306 :: 64 word), ''zone'' \<mapsto> VNil]"
          "''zone''"]
    Entity_String_total
      [of "[''name'' \<mapsto> VString ''db1'', ''port'' \<mapsto> VInt (3306 :: 64 word), ''zone'' \<mapsto> VNil]"
          "''host''"]
  by simp

subsection \<open>The sorted labels\<close>

text \<open>The order of strings: the prefix first, else the first differing byte decides.\<close>

lemma string_less_eq_bytewise:
  fixes x y :: char and xs ys :: string
  shows "[] \<le> ys" and "\<not> x # xs \<le> []"
    and "x # xs \<le> y # ys \<longleftrightarrow> x < y \<or> x = y \<and> xs \<le> ys"
    and "x < y \<longleftrightarrow> (of_char x :: nat) < of_char y"
  by (simp_all add: less_char_def)

text \<open>Whatever algorithm sorts the slice, an increasing rearrangement is this one.\<close>

lemma sort_Strings_unique:
  "sorted ys \<Longrightarrow> mset ys = mset xs \<Longrightarrow> ys = sort_Strings xs"
  unfolding sort_Strings_def by (simp add: properties_for_sort)

text \<open>Every finite map has an iteration order.\<close>

lemma range_order_exists:
  "finite (dom e) \<Longrightarrow> \<exists>ks. range_order e ks"
  unfolding range_order_def using finite_distinct_list [of "dom e"] by blast

text \<open>
  The loop writes the \<open>k\<close>-th key it visits at index \<open>i + k\<close>: started on a slice with room
  for exactly the keys to come, it never indexes out of range.
\<close>

lemma Labels_loop_fills:
  "length labels = i + length ks \<Longrightarrow> Labels_loop labels i ks = Inr (take i labels @ ks)"
proof (induction ks arbitrary: labels i)
  case Nil
  then show ?case by simp
next
  case (Cons k ks)
  from Cons.prems have i: "i < length labels" by simp
  have "Labels_loop (labels[i := k]) (Suc i) ks = Inr (take (Suc i) (labels[i := k]) @ ks)"
    by (rule Cons.IH) (use Cons.prems in simp)
  moreover have "take (Suc i) (labels[i := k]) = take i labels @ [k]"
    using i by (simp add: take_Suc_conv_app_nth)
  ultimately show ?case using i by simp
qed

lemma Entity_Labels_sort:
  assumes "range_order e ks"
  shows "Entity_Labels e ks = Inr (sort ks)"
proof -
  have "len e = length ks"
    using assms by (simp add: range_order_def len_def distinct_card [symmetric])
  then have "Labels_loop (replicate (len e) '''') 0 ks = Inr ks"
    by (simp add: Labels_loop_fills)
  then show ?thesis
    by (simp add: Entity_Labels_def and_then_def sort_Strings_def)
qed

text \<open>
  C6. Whatever the order \<open>ks\<close> in which the loop visits the keys, \<^verbatim>\<open>Labels\<close> returns, without
  panicking, all the keys of the map, each once, in ascending lexicographic order; a
  second call on the same entity, visiting the keys in any order \<open>ks'\<close>, returns the same
  sequence.
\<close>

theorem Entity_Labels_sorted_keys:
  assumes "range_order e ks" and "range_order e ks'"
  shows "\<exists>labels. Entity_Labels e ks = Inr labels
          \<and> set labels = dom e \<and> distinct labels \<and> length labels = len e
          \<and> sorted labels
          \<and> labels = sorted_list_of_set (dom e)
          \<and> Entity_Labels e ks' = Inr labels"
proof -
  have eq: "sort ks = sorted_list_of_set (dom e)" if "range_order e ks" for ks
  proof -
    from that have "distinct ks" and "dom e = set ks"
      by (simp_all add: range_order_def)
    then show ?thesis
      by (simp add: sorted_list_of_set_sort_remdups distinct_remdups_id)
  qed
  have fin: "finite (dom e)"
    using assms(1) by (auto simp: range_order_def intro: finite_subset [OF _ finite_set])
  show ?thesis
    using fin by (simp add: Entity_Labels_sort assms eq len_def)
qed

theorem Entity_Labels_sorted_keys_witness:
  "range_order [''zone'' \<mapsto> VString ''a'', ''_id'' \<mapsto> VString ''e1'', ''Env'' \<mapsto> (VNil :: 64 word val)]
     [''zone'', ''Env'', ''_id'']
   \<and> range_order [''zone'' \<mapsto> VString ''a'', ''_id'' \<mapsto> VString ''e1'', ''Env'' \<mapsto> (VNil :: 64 word val)]
     [''_id'', ''zone'', ''Env'']
   \<and> Entity_Labels [''zone'' \<mapsto> VString ''a'', ''_id'' \<mapsto> VString ''e1'', ''Env'' \<mapsto> (VNil :: 64 word val)]
       [''zone'', ''Env'', ''_id''] = Inr [''Env'', ''_id'', ''zone'']
   \<and> Entity_Labels [''zone'' \<mapsto> VString ''a'', ''_id'' \<mapsto> VString ''e1'', ''Env'' \<mapsto> (VNil :: 64 word val)]
       [''_id'', ''zone'', ''Env''] = Inr [''Env'', ''_id'', ''zone'']"
proof -
  let ?e = "[''zone'' \<mapsto> VString ''a'', ''_id'' \<mapsto> VString ''e1'', ''Env'' \<mapsto> (VNil :: 64 word val)]"
  have r1: "range_order ?e [''zone'', ''Env'', ''_id'']"
    by (auto simp: range_order_def)
  have r2: "range_order ?e [''_id'', ''zone'', ''Env'']"
    by (auto simp: range_order_def)
  have l1: "Entity_Labels ?e [''zone'', ''Env'', ''_id''] = Inr [''Env'', ''_id'', ''zone'']"
    by (simp add: Entity_Labels_def len_def and_then_def sort_Strings_def)
  show ?thesis
    using Entity_Labels_sorted_keys [OF r1 r2] r1 r2 l1 by simp
qed

section \<open>Write results and derived errors\<close>

text \<open>
  C5. \<^verbatim>\<open>IsZero\<close> is true exactly when the sequence of successful writes is empty and no error
  is set.
\<close>

theorem WriteResult_IsZero_iff:
  "WriteResult_IsZero wr \<longleftrightarrow> elems (WriteResult_Writes wr) = [] \<and> WriteResult_Error wr = None"
  by (auto simp: WriteResult_IsZero_def len_slice_def)

text \<open>The empty sequence is the nil slice or a slice of no elements.\<close>

lemma WriteResult_IsZero_nil_or_empty:
  "WriteResult_IsZero wr \<longleftrightarrow>
     WriteResult_Writes wr \<in> {NilSlice, Slice []} \<and> WriteResult_Error wr = None"
  by (cases "WriteResult_Writes wr") (auto simp: WriteResult_IsZero_def len_slice_def)

text \<open>
  C4. A call of \<^verbatim>\<open>New\<close> leaves the caller's error as it was. With the empty format it returns
  an error equal to the receiver; with a non-empty format it returns an error whose
  \<^verbatim>\<open>Message\<close> is the formatted string and whose other fields are the receiver's.
\<close>

theorem Error_New_derives:
  "fst (Error_New Sprintf e msgFmt msgArgs) = e
   \<and> snd (Error_New Sprintf e '''' msgArgs) = e
   \<and> (msgFmt \<noteq> '''' \<longrightarrow>
        Error_Message (snd (Error_New Sprintf e msgFmt msgArgs)) = Sprintf msgFmt msgArgs
      \<and> Error_Type (snd (Error_New Sprintf e msgFmt msgArgs)) = Error_Type e
      \<and> Error_EntityId (snd (Error_New Sprintf e msgFmt msgArgs)) = Error_EntityId e
      \<and> Error_HTTPStatus (snd (Error_New Sprintf e msgFmt msgArgs)) = Error_HTTPStatus e
      \<and> snd (Error_New Sprintf e msgFmt msgArgs) = e\<lparr>Error_Message := Sprintf msgFmt msgArgs\<rparr>)"
  by (simp add: Error_New_def New_body_def Let_def)

theorem Error_New_derives_witness:
  "''no entity %s'' \<noteq> ''''
   \<and> Error_New (\<lambda>f a. ''no entity '' @ concat a)
        \<lparr>Error_Message = '''', Error_Type = ''not-found'', Error_EntityId = ''e1'',
         Error_HTTPStatus = (404 :: 64 word)\<rparr> ''no entity %s'' [''e1'']
      = (\<lparr>Error_Message = '''', Error_Type = ''not-found'', Error_EntityId = ''e1'',
          Error_HTTPStatus = 404\<rparr>,
         \<lparr>Error_Message = ''no entity e1'', Error_Type = ''not-found'', Error_EntityId = ''e1'',
          Error_HTTPStatus = 404\<rparr>)"
  using Error_New_derives
    [of "\<lambda>f a. ''no entity '' @ concat a"
        "\<lparr>Error_Message = '''', Error_Type = ''not-found'', Error_EntityId = ''e1'',
          Error_HTTPStatus = (404 :: 64 word)\<rparr>" "''no entity %s''" "[''e1'']"]
  by (simp add: prod_eq_iff)

end
